theory Spec2Isabelle
  imports Main "HOL-Library.Sublist"
begin

section \<open>JSON values and JavaScript truthiness\<close>

text \<open>
  Plans, tool parameters and tool results are untyped JSON in the source (\<open>any\<close>).
  An object is an association list of its own properties, each key listed once;
  numbers are integers here. \<open>JNull\<close> stands for both \<open>null\<close> and \<open>undefined\<close>
  where a value is held.
\<close>

datatype json =
    JNull
  | JBool bool
  | JNum int
  | JStr string
  | JArr "json list"
  | JObj "(string \<times> json) list"

text \<open>The value of \<open>if (v)\<close> for a JSON value \<open>v\<close>.\<close>

fun truthy :: "json \<Rightarrow> bool" where
  "truthy JNull = False"
| "truthy (JBool b) = b"
| "truthy (JNum n) = (n \<noteq> 0)"
| "truthy (JStr s) = (s \<noteq> [])"
| "truthy (JArr xs) = True"
| "truthy (JObj kvs) = True"

text \<open>Property read \<open>v.id\<close>: only an object has own properties; \<open>None\<close> is \<open>undefined\<close>.\<close>

fun get_id :: "json \<Rightarrow> json option" where
  "get_id (JObj kvs) = map_of kvs ''id''"
| "get_id v = None"

section \<open>Tasks, messages and the event bus (legacy router)\<close>

datatype Role = User | Agent

datatype Part = TextPart string | DataPart json | OtherPart

record Message =
  msg_messageId :: string
  msg_role :: Role
  msg_parts :: "Part list option"
  msg_contextId :: "string option"
  msg_taskId :: "string option"
  msg_timestamp :: "string option"

datatype TaskState = Working | Completed | Failed | Canceled

record TaskStatus =
  st_state :: TaskState
  st_timestamp :: string
  st_message :: "string option"

record Task =
  task_id :: string
  task_contextId :: string
  task_status :: TaskStatus
  task_history :: "Message list"

definition terminal :: "Task \<Rightarrow> bool" where
  "terminal t = (st_state (task_status t) \<in> {Completed, Failed, Canceled})"

text \<open>
  The event bus that \<open>handleSendMessage\<close> builds is a pair of closures over the task
  object. \<open>publish\<close> pushes the event onto the history; \<open>finished\<close> replaces the
  status by a fresh \<open>completed\<close> one, \<open>now\<close> being the clock's reading at the call.
\<close>

definition publish :: "Message \<Rightarrow> Task \<Rightarrow> Task" where
  "publish event task = task\<lparr>task_history := task_history task @ [event]\<rparr>"

definition finished :: "string \<Rightarrow> Task \<Rightarrow> Task" where
  "finished now task =
     task\<lparr>task_status := \<lparr>st_state = Completed, st_timestamp = now, st_message = None\<rparr>\<rparr>"

text \<open>The \<open>.catch\<close> handler that \<open>handleSendMessage\<close> attaches to the promise of \<open>execute\<close>.\<close>

definition execute_rejected :: "string \<Rightarrow> string \<Rightarrow> Task \<Rightarrow> Task" where
  "execute_rejected now err task =
     task\<lparr>task_status := \<lparr>st_state = Failed, st_timestamp = now, st_message = Some err\<rparr>\<rparr>"

section \<open>The router's task store and its handlers\<close>

text \<open>
  \<open>tasks\<close> is the router's \<open>Map\<close> from task id to task. \<open>draws\<close> counts the values
  the router has taken from \<open>uuidv4\<close>, whose successive results are a parameter
  \<open>uuidv4 :: nat \<Rightarrow> string\<close> of the handlers that draw.
\<close>

record Router =
  tasks :: "string \<rightharpoonup> Task"
  draws :: nat

datatype Thrown = RPCError int string | TypeError string

record Params =
  p_message :: "Message option"
  p_contextId :: "string option"
  p_taskId :: "string option"

definition createRPCError :: "int \<Rightarrow> string \<Rightarrow> Thrown" where
  "createRPCError code message = RPCError code message"

text \<open>\<open>!taskId\<close> holds for a missing task id and for the empty string.\<close>

definition falsy_str :: "string option \<Rightarrow> bool" where
  "falsy_str v = (case v of None \<Rightarrow> True | Some s \<Rightarrow> s = [])"

definition handleGetTaskRPC :: "Router \<Rightarrow> Params option \<Rightarrow> Thrown + Task" where
  "handleGetTaskRPC r params =
     (case params of
        None \<Rightarrow> Inl (TypeError ''Cannot destructure property 'taskId' of 'params' as it is undefined.'')
      | Some p \<Rightarrow>
          if falsy_str (p_taskId p) then Inl (createRPCError (- 32602) ''Invalid params: taskId required'')
          else (case tasks r (the (p_taskId p)) of
                  None \<Rightarrow> Inl (createRPCError (- 32000) (''Task not found: '' @ the (p_taskId p)))
                | Some task \<Rightarrow> Inr task))"

definition handleCancelTask :: "string \<Rightarrow> Router \<Rightarrow> Params option \<Rightarrow> (Thrown + Task) \<times> Router" where
  "handleCancelTask now r params =
     (case params of
        None \<Rightarrow> (Inl (TypeError ''Cannot destructure property 'taskId' of 'params' as it is undefined.''), r)
      | Some p \<Rightarrow>
          if falsy_str (p_taskId p) then (Inl (createRPCError (- 32602) ''Invalid params: taskId required''), r)
          else (case tasks r (the (p_taskId p)) of
                  None \<Rightarrow> (Inl (createRPCError (- 32000) (''Task not found: '' @ the (p_taskId p))), r)
                | Some task \<Rightarrow>
                    let task' = task\<lparr>task_status :=
                                  \<lparr>st_state = Canceled, st_timestamp = now, st_message = None\<rparr>\<rparr>
                    in (Inr task', r\<lparr>tasks := (tasks r)(the (p_taskId p) \<mapsto> task')\<rparr>)))"

section \<open>The step executor (legacy variant of \<open>AgentExecutor\<close>)\<close>

definition PLACEHOLDER :: string where
  "PLACEHOLDER = ''__PREVIOUS_RESULT_ID__''"

record Step =
  toolName :: string
  toolParams :: json

text \<open>The declared result type of \<open>selectToolWithAI\<close>; \<open>steps\<close> is optional.\<close>

record Plan =
  plan_toolName :: string
  plan_toolParams :: json
  plan_steps :: "Step list option"

text \<open>Decimal rendering of a number inside a template string.\<close>

definition digit :: "nat \<Rightarrow> char" where
  "digit d = ''0123456789'' ! d"

function show_nat :: "nat \<Rightarrow> string" where
  "show_nat n = (if n < 10 then [digit n] else show_nat (n div 10) @ [digit (n mod 10)])"
  by pat_completeness auto
termination
  by (relation "measure id") auto

declare show_nat.simps [simp del]

fun join :: "string \<Rightarrow> string list \<Rightarrow> string" where
  "join sep [] = []"
| "join sep [x] = x"
| "join sep (x # y # ys) = x @ sep @ join sep (y # ys)"

text \<open>
  \<open>{ ...step.toolParams }\<close>: the own enumerable properties of the value. An array and
  a string contribute their indices; \<open>null\<close>, booleans and numbers contribute nothing.
\<close>

fun spread :: "json \<Rightarrow> (string \<times> json) list" where
  "spread (JObj kvs) = kvs"
| "spread (JArr xs) = zip (map show_nat [0..<length xs]) xs"
| "spread (JStr s) = zip (map show_nat [0..<length s]) (map (\<lambda>c. JStr [c]) s)"
| "spread v = []"

text \<open>The \<open>for (const key in params)\<close> loop that links a step to the previous result.\<close>

definition substitute :: "json \<Rightarrow> (string \<times> json) list \<Rightarrow> (string \<times> json) list" where
  "substitute ident params =
     map (\<lambda>(key, v). (key, if v = JStr PLACEHOLDER then ident else v)) params"

definition has_truthy_id :: "json \<Rightarrow> bool" where
  "has_truthy_id previousResult =
     (truthy previousResult \<and>
      (case get_id previousResult of None \<Rightarrow> False | Some i \<Rightarrow> truthy i))"

definition resolve_params :: "json \<Rightarrow> json \<Rightarrow> (string \<times> json) list" where
  "resolve_params previousResult tparams =
     (let params = spread tparams
      in if has_truthy_id previousResult
         then substitute (the (get_id previousResult)) params
         else params)"

text \<open>
  What the executor is run against. \<open>toolHandlers\<close> is the MCP server's handler table
  (a handler may fail with a message and may change the registry's state \<open>'s\<close>);
  \<open>stringify\<close> and \<open>parse\<close> are \<open>JSON.stringify\<close> and \<open>JSON.parse\<close> (\<open>None\<close> when it
  throws); \<open>completion\<close> is the planner oracle's answer to the user text (\<open>Inl\<close> when the
  call throws, else the content of the first choice) and \<open>parsePlan\<close> decodes that
  content (\<open>Inl\<close> with the syntax error's message); \<open>stamp k\<close> is the message id and
  the timestamp that the \<open>k\<close>-th agent message created in this run receives.
\<close>

record 's Env =
  toolHandlers :: "string \<rightharpoonup> ((string \<times> json) list \<Rightarrow> 's \<Rightarrow> (string + json) \<times> 's)"
  stringify :: "json \<Rightarrow> string"
  parse :: "string \<Rightarrow> json option"
  completion :: "string \<Rightarrow> string + string option"
  parsePlan :: "string \<Rightarrow> string + Plan"
  stamp :: "nat \<Rightarrow> string \<times> string"

record Content =
  c_type :: string
  c_text :: string

text \<open>\<open>MCPServer.callTool\<close>; \<open>Inl\<close> carries the message of the error it throws.\<close>

definition callTool ::
  "'s Env \<Rightarrow> string \<Rightarrow> (string \<times> json) list \<Rightarrow> 's \<Rightarrow> (string + Content list) \<times> 's" where
  "callTool E name args s =
     (case toolHandlers E name of
        None \<Rightarrow> (Inl (''Tool not found: '' @ name), s)
      | Some handler \<Rightarrow>
          (case handler args s of
             (Inl err, s') \<Rightarrow> (Inl (''Tool execution failed: '' @ err), s')
           | (Inr result, s') \<Rightarrow>
               (Inr [\<lparr>c_type = ''text'',
                      c_text = (case result of JStr t \<Rightarrow> t | _ \<Rightarrow> stringify E result)\<rparr>], s')))"

definition response_json :: "Content list \<Rightarrow> json" where
  "response_json content =
     JObj [(''content'',
            JArr (map (\<lambda>c. JObj [(''type'', JStr (c_type c)), (''text'', JStr (c_text c))]) content))]"

definition executeTool ::
  "'s Env \<Rightarrow> string \<Rightarrow> (string \<times> json) list \<Rightarrow> 's \<Rightarrow> (string + json) \<times> 's" where
  "executeTool E name params s =
     (case callTool E name params s of
        (Inl err, s') \<Rightarrow> (Inl (''Tool execution failed: '' @ err), s')
      | (Inr content, s') \<Rightarrow>
          (Inr (case content of
                  [] \<Rightarrow> response_json content
                | textContent # _ \<Rightarrow>
                    if c_type textContent = ''text''
                    then (case parse E (c_text textContent) of
                            Some v \<Rightarrow> v
                          | None \<Rightarrow> JStr (c_text textContent))
                    else response_json content), s'))"

definition selectToolWithAI :: "'s Env \<Rightarrow> string \<Rightarrow> string + Plan" where
  "selectToolWithAI E userMessage =
     (case completion E userMessage of
        Inl err \<Rightarrow> Inl err
      | Inr content \<Rightarrow>
          if falsy_str content then Inl ''No response from AI''
          else parsePlan E (the content))"

fun part_text :: "Part \<Rightarrow> string option" where
  "part_text (TextPart t) = Some t"
| "part_text p = None"

fun part_data :: "Part \<Rightarrow> json option" where
  "part_data (DataPart d) = Some d"
| "part_data p = None"

text \<open>\<open>message.parts.filter\<close> throws a TypeError when the message has no \<open>parts\<close>.\<close>

definition extractTextFromMessage :: "Message \<Rightarrow> string + string" where
  "extractTextFromMessage message =
     (case msg_parts message of
        None \<Rightarrow> Inl ''Cannot read properties of undefined (reading 'filter')''
      | Some ps \<Rightarrow> Inr (join '' '' (List.map_filter part_text ps)))"

definition createAgentMessage ::
  "string \<times> string \<Rightarrow> string \<Rightarrow> json \<Rightarrow> string \<Rightarrow> string \<Rightarrow> Message" where
  "createAgentMessage st text data contextId taskId =
     \<lparr>msg_messageId = fst st, msg_role = Agent,
      msg_parts = Some (TextPart text # (if truthy data then [DataPart data] else [])),
      msg_contextId = Some contextId, msg_taskId = Some taskId,
      msg_timestamp = Some (snd st)\<rparr>"

record ExecutionContext =
  ctx_message :: Message
  ctx_contextId :: string
  ctx_taskId :: string

definition stepText :: "nat \<Rightarrow> nat \<Rightarrow> Step \<Rightarrow> string" where
  "stepText i n step =
     ''Step '' @ show_nat (i + 1) @ ''/'' @ show_nat n @ '': Successfully executed '' @ toolName step"

text \<open>
  The \<open>for\<close> loop of \<open>execute\<close> from step \<open>i\<close> on, \<open>n\<close> being \<open>steps.length\<close>. It
  yields the tool invocations made (name and resolved parameters), the step messages
  published, the \<open>results\<close> array (tool name and result of every completed step), the
  message of the error thrown (if any) and the registry's state. A throwing step ends
  the loop.
\<close>

record 's Loop =
  l_invoked :: "(string \<times> (string \<times> json) list) list"
  l_published :: "Message list"
  l_results :: "(string \<times> json) list"
  l_error :: "string option"
  l_state :: 's

fun steps_loop ::
  "'s Env \<Rightarrow> ExecutionContext \<Rightarrow> nat \<Rightarrow> nat \<Rightarrow> json \<Rightarrow> Step list \<Rightarrow> 's \<Rightarrow> 's Loop" where
  "steps_loop E ctx n i previousResult [] s =
     \<lparr>l_invoked = [], l_published = [], l_results = [], l_error = None, l_state = s\<rparr>"
| "steps_loop E ctx n i previousResult (step # rest) s =
     (let params = resolve_params previousResult (toolParams step)
      in case executeTool E (toolName step) params s of
           (Inl err, s') \<Rightarrow>
             \<lparr>l_invoked = [(toolName step, params)], l_published = [], l_results = [],
              l_error = Some err, l_state = s'\<rparr>
         | (Inr result, s') \<Rightarrow>
             (let L = steps_loop E ctx n (i + 1) result rest s'
              in L\<lparr>l_invoked := (toolName step, params) # l_invoked L,
                   l_published :=
                     (if n > 1
                      then [createAgentMessage (stamp E i) (stepText i n step) result
                              (ctx_contextId ctx) (ctx_taskId ctx)]
                      else []) @ l_published L,
                   l_results := (toolName step, result) # l_results L\<rparr>))"

datatype BusCall = Publish Message | Finished

text \<open>
  A run of \<open>execute\<close>: the tool invocations made, the event-bus calls in order, the
  message of the error with which the returned promise rejects (if it does), and the
  registry's state afterwards.
\<close>

record 's Run =
  invoked :: "(string \<times> (string \<times> json) list) list"
  bus :: "BusCall list"
  rejected :: "string option"
  tool_state :: 's

definition summaryText :: "Step list \<Rightarrow> string" where
  "summaryText steps =
     (if length steps > 1
      then ''Successfully completed '' @ show_nat (length steps) @ '' steps:'' @ [CHR 0x0A] @
           join [CHR 0x0A]
             (map (\<lambda>(i, st). show_nat (i + 1) @ ''. '' @ toolName st) (enumerate 0 steps))
      else ''Successfully executed '' @ (case steps of [] \<Rightarrow> [] | st # _ \<Rightarrow> toolName st))"

definition results_json :: "(string \<times> json) list \<Rightarrow> json" where
  "results_json results =
     JArr (map (\<lambda>(t, result). JObj [(''tool'', JStr t), (''result'', result)]) results)"

definition errorMessage :: "'s Env \<Rightarrow> nat \<Rightarrow> string \<Rightarrow> ExecutionContext \<Rightarrow> Message" where
  "errorMessage E k err ctx =
     createAgentMessage (stamp E k) (''Error: '' @ err) JNull (ctx_contextId ctx) (ctx_taskId ctx)"

text \<open>
  \<open>execute\<close>. The user text is extracted before the \<open>try\<close>, so a message without
  \<open>parts\<close> rejects the promise; every error raised inside the \<open>try\<close> (planning, a tool,
  or \<open>steps[0]\<close> of an empty \<open>steps\<close> array) reaches the \<open>catch\<close> branch, which publishes
  the error message and calls \<open>finished\<close>.
\<close>

definition execute :: "'s Env \<Rightarrow> ExecutionContext \<Rightarrow> 's \<Rightarrow> 's Run" where
  "execute E ctx s =
     (case extractTextFromMessage (ctx_message ctx) of
        Inl err \<Rightarrow> \<lparr>invoked = [], bus = [], rejected = Some err, tool_state = s\<rparr>
      | Inr userMessage \<Rightarrow>
          (case selectToolWithAI E userMessage of
             Inl err \<Rightarrow>
               \<lparr>invoked = [], bus = [Publish (errorMessage E 0 err ctx), Finished],
                rejected = None, tool_state = s\<rparr>
           | Inr planResponse \<Rightarrow>
               let steps = (case plan_steps planResponse of
                              Some ss \<Rightarrow> ss
                            | None \<Rightarrow> [\<lparr>toolName = plan_toolName planResponse,
                                        toolParams = plan_toolParams planResponse\<rparr>]);
                   L = steps_loop E ctx (length steps) 0 JNull steps s;
                   k = length (l_published L);
                   last_message =
                     (case l_error L of
                        Some err \<Rightarrow> errorMessage E k err ctx
                      | None \<Rightarrow>
                          if steps = []
                          then errorMessage E k
                                 ''Cannot read properties of undefined (reading 'toolName')'' ctx
                          else createAgentMessage (stamp E k) (summaryText steps)
                                 (if length steps = 1
                                  then (case l_results L of
                                          [] \<Rightarrow> JNull
                                        | (t, result) # _ \<Rightarrow> result)
                                  else results_json (l_results L))
                                 (ctx_contextId ctx) (ctx_taskId ctx))
               in \<lparr>invoked = l_invoked L,
                   bus = map Publish (l_published L) @ [Publish last_message, Finished],
                   rejected = None, tool_state = l_state L\<rparr>))"

text \<open>
  The background execution that \<open>handleSendMessage\<close> starts, as it acts on the task
  object: each event-bus call in order, then the \<open>.catch\<close> handler if the promise rejects.
\<close>

definition apply_bus :: "string \<Rightarrow> Task \<Rightarrow> BusCall \<Rightarrow> Task" where
  "apply_bus now task call = (case call of Publish event \<Rightarrow> publish event task | Finished \<Rightarrow> finished now task)"

definition settle :: "string \<Rightarrow> 's Run \<Rightarrow> Task \<Rightarrow> Task" where
  "settle now run task =
     (let task' = foldl (apply_bus now) task (bus run)
      in case rejected run of None \<Rightarrow> task' | Some err \<Rightarrow> execute_rejected now err task')"


section \<open>Creating tasks and dispatching JSON-RPC requests\<close>

text \<open>
  \<open>handleSendMessage\<close>, as the caller that awaits it sees the task: it draws the task
  id, draws a context id when \<open>contextId\<close> is falsy, stores the task and returns it.
  \<open>execute\<close> is called inside and runs up to its first \<open>await\<close>; when the message has
  no \<open>parts\<close> it throws there, and the \<open>.catch\<close> handler has marked the task \<open>failed\<close>
  before the awaiting caller resumes (the clock's two readings are both \<open>now\<close>).
\<close>

definition handleSendMessage ::
  "(nat \<Rightarrow> string) \<Rightarrow> string \<Rightarrow> Router \<Rightarrow> Params option \<Rightarrow> (Thrown + Task) \<times> Router" where
  "handleSendMessage uuidv4 now r params =
     (case params of
        None \<Rightarrow> (Inl (TypeError ''Cannot destructure property 'message' of 'params' as it is undefined.''), r)
      | Some p \<Rightarrow>
          (case p_message p of
             None \<Rightarrow> (Inl (createRPCError (- 32602) ''Invalid params: message required''), r)
           | Some message \<Rightarrow>
               let taskId = uuidv4 (draws r);
                   generate = falsy_str (p_contextId p);
                   created = \<lparr>task_id = taskId,
                              task_contextId = (if generate then uuidv4 (draws r + 1) else the (p_contextId p)),
                              task_status = \<lparr>st_state = Working, st_timestamp = now, st_message = None\<rparr>,
                              task_history = [message]\<rparr>;
                   task = (case extractTextFromMessage message of
                             Inl err \<Rightarrow> execute_rejected now err created
                           | Inr userMessage \<Rightarrow> created)
               in (Inr task,
                   \<lparr>tasks = (tasks r)(taskId \<mapsto> task),
                    draws = draws r + (if generate then 2 else 1)\<rparr>)))"

text \<open>
  What the execution does to the task after \<open>handleSendMessage\<close> has returned it. For
  a message without \<open>parts\<close> nothing is left to do: the rejection and its handler are
  part of \<open>handleSendMessage\<close> above.
\<close>

definition background :: "'s Env \<Rightarrow> string \<Rightarrow> Message \<Rightarrow> Task \<Rightarrow> 's \<Rightarrow> Task" where
  "background E now message task s =
     (case extractTextFromMessage message of
        Inl err \<Rightarrow> task
      | Inr userMessage \<Rightarrow>
          settle now
            (execute E \<lparr>ctx_message = message, ctx_contextId = task_contextId task,
                        ctx_taskId = task_id task\<rparr> s)
            task)"

record JSONRPCRequest =
  req_jsonrpc :: "json option"
  req_method :: "string option"
  req_params :: "Params option"
  req_id :: "json option"

record JSONRPCResponse =
  res_status :: nat
  res_jsonrpc :: string
  res_result :: "Task option"
  res_error :: "Thrown option"
  res_id :: json

text \<open>\<open>request.id || null\<close> and \<open>request.id ?? null\<close>; \<open>None\<close> is an absent \<open>id\<close>.\<close>

definition or_null :: "json option \<Rightarrow> json" where
  "or_null v = (case v of None \<Rightarrow> JNull | Some x \<Rightarrow> if truthy x then x else JNull)"

definition nullish :: "json option \<Rightarrow> json" where
  "nullish v = (case v of None \<Rightarrow> JNull | Some x \<Rightarrow> x)"

definition dispatch ::
  "(nat \<Rightarrow> string) \<Rightarrow> string \<Rightarrow> Router \<Rightarrow> JSONRPCRequest \<Rightarrow> (Thrown + Task) \<times> Router" where
  "dispatch uuidv4 now r request =
     (if req_method request \<in> {Some ''sendMessage'', Some ''message/send''}
      then handleSendMessage uuidv4 now r (req_params request)
      else if req_method request \<in> {Some ''getTask'', Some ''task/get'', Some ''tasks/get''}
      then (handleGetTaskRPC r (req_params request), r)
      else if req_method request \<in> {Some ''cancelTask'', Some ''task/cancel''}
      then handleCancelTask now r (req_params request)
      else (Inl (createRPCError (- 32601)
                   (''Method not found: '' @
                    (case req_method request of None \<Rightarrow> ''undefined'' | Some m \<Rightarrow> m))), r))"

definition handleJSONRPC ::
  "(nat \<Rightarrow> string) \<Rightarrow> string \<Rightarrow> Router \<Rightarrow> JSONRPCRequest \<Rightarrow> JSONRPCResponse \<times> Router" where
  "handleJSONRPC uuidv4 now r request =
     (if req_jsonrpc request \<noteq> Some (JStr ''2.0'')
      then (\<lparr>res_status = 200, res_jsonrpc = ''2.0'', res_result = None,
             res_error = Some (RPCError (- 32600) ''Invalid Request''),
             res_id = or_null (req_id request)\<rparr>, r)
      else (case dispatch uuidv4 now r request of
              (Inr result, r') \<Rightarrow>
                (\<lparr>res_status = 200, res_jsonrpc = ''2.0'', res_result = Some result,
                  res_error = None, res_id = nullish (req_id request)\<rparr>, r')
            | (Inl err, r') \<Rightarrow>
                (\<lparr>res_status = 400, res_jsonrpc = ''2.0'', res_result = None,
                  res_error = Some err, res_id = nullish (req_id request)\<rparr>, r')))"

text \<open>
  What happens at the router, one event at a time: a JSON-RPC request, an event-bus
  call made by the execution of the task with the given id, or the rejection of that
  execution's promise. The closures act on the task object that \<open>handleSendMessage\<close>
  created, which is the one stored under its id.
\<close>

datatype Event =
    Rpc string JSONRPCRequest
  | BusEvent string string BusCall
  | Rejection string string string

definition on_task :: "string \<Rightarrow> (Task \<Rightarrow> Task) \<Rightarrow> Router \<Rightarrow> Router" where
  "on_task k f r = (case tasks r k of None \<Rightarrow> r | Some t \<Rightarrow> r\<lparr>tasks := (tasks r)(k \<mapsto> f t)\<rparr>)"

fun router_step :: "(nat \<Rightarrow> string) \<Rightarrow> Router \<Rightarrow> Event \<Rightarrow> Router" where
  "router_step uuidv4 r (Rpc now request) = snd (handleJSONRPC uuidv4 now r request)"
| "router_step uuidv4 r (BusEvent now k call) = on_task k (\<lambda>t. apply_bus now t call) r"
| "router_step uuidv4 r (Rejection now k err) = on_task k (execute_rejected now err) r"

text \<open>The router as constructed: an empty \<open>Map\<close>, nothing drawn yet.\<close>

definition router0 :: Router where
  "router0 = \<lparr>tasks = Map.empty, draws = 0\<rparr>"

section \<open>The client reconciler\<close>

text \<open>
  The browser client (\<open>A2AClient\<close>, and \<open>A2ASDKClient\<close> with the same loop). \<open>chat\<close>
  is the sequence of calls of \<open>addAgentMessage\<close> (text and data), which is what the
  client emits; the display loop makes the call for a message with non-empty text only.
\<close>

record Client =
  c_tasks :: "string \<rightharpoonup> Task"
  requestId :: nat
  chat :: "(string \<times> json option) list"

definition agentMessages :: "Task \<Rightarrow> Message list" where
  "agentMessages task = filter (\<lambda>h. msg_role h = Agent) (task_history task)"

definition renderAgent :: "Message \<Rightarrow> (string \<times> json option) option" where
  "renderAgent msg =
     (let ps = (case msg_parts msg of None \<Rightarrow> [] | Some ps \<Rightarrow> ps);
          text = join [CHR 0x0A] (List.map_filter part_text ps);
          data = (case List.map_filter part_data ps of [] \<Rightarrow> None | d # _ \<Rightarrow> Some d)
      in if text \<noteq> [] then Some (text, data) else None)"

definition display :: "Message list \<Rightarrow> Client \<Rightarrow> Client" where
  "display msgs c =
     c\<lparr>chat := chat c @ List.map_filter renderAgent msgs\<rparr>"

definition maxAttempts :: nat where
  "maxAttempts = 30"

text \<open>
  The closure \<open>poll\<close> of \<open>pollTask\<close>, entered with \<open>attempts\<close> polls already made.
  \<open>getTask k\<close> is the outcome of the \<open>k\<close>-th \<open>getTask\<close> request of this task (\<open>Inl\<close>
  when the request fails or answers with an error). The closure re-arms its timer
  only while the fetched task is \<open>working\<close>.
\<close>

function poll :: "(nat \<Rightarrow> string + Task) \<Rightarrow> string \<Rightarrow> nat \<Rightarrow> nat \<Rightarrow> Client \<Rightarrow> Client" where
  "poll getTask taskId attempts shownAgentMessages c =
     (if attempts \<ge> maxAttempts then c
      else (case getTask attempts of
              Inl err \<Rightarrow> c\<lparr>requestId := requestId c + 1\<rparr>
            | Inr task \<Rightarrow>
                let c1 = c\<lparr>requestId := requestId c + 1, c_tasks := (c_tasks c)(taskId \<mapsto> task)\<rparr>;
                    new = length (agentMessages task) > shownAgentMessages;
                    c2 = (if new then display (drop shownAgentMessages (agentMessages task)) c1 else c1);
                    shown' = (if new then length (agentMessages task) else shownAgentMessages)
                in if st_state (task_status task) = Working
                   then poll getTask taskId (attempts + 1) shown' c2
                   else c2))"
  by pat_completeness auto
termination
  by (relation "measure (\<lambda>(getTask, taskId, attempts, shown, c). maxAttempts - attempts)") auto

declare poll.simps [simp del]

definition pollTask :: "(nat \<Rightarrow> string + Task) \<Rightarrow> string \<Rightarrow> Client \<Rightarrow> Client" where
  "pollTask getTask taskId c =
     poll getTask taskId 0
       (case c_tasks c taskId of None \<Rightarrow> 0 | Some existingTask \<Rightarrow> length (agentMessages existingTask))
       c"

text \<open>
  \<open>handleTask\<close> of \<open>A2AClient\<close>, which receives the task that send-message returned:
  it stores the task, shows the agent messages of a history longer than one message,
  and starts the polling when the task is \<open>working\<close>. (\<open>A2ASDKClient\<close> shows the text of
  a message's first part only at this point; its polling loop is the one above.)
\<close>

definition handleTask :: "(nat \<Rightarrow> string + Task) \<Rightarrow> Task \<Rightarrow> Client \<Rightarrow> Client" where
  "handleTask getTask task c =
     (let c1 = c\<lparr>c_tasks := (c_tasks c)(task_id task \<mapsto> task)\<rparr>;
          c2 = (if length (task_history task) > 1 then display (agentMessages task) c1 else c1)
      in if st_state (task_status task) = Working then pollTask getTask (task_id task) c2 else c2)"







section \<open>Concrete scenarios\<close>

text \<open>
  A small registry: \<open>create_account\<close> and \<open>create_order\<close> return an object with an
  \<open>id\<close>, \<open>count_orders\<close> returns the number \<open>0\<close>, \<open>archive\<close> throws. The registry's
  state counts the handler calls. \<open>json_texts\<close> is \<open>JSON.stringify\<close> on the values
  that occur, and \<open>JSON.parse\<close> is its inverse there.
\<close>

definition account :: json where
  "account = JObj [(''id'', JStr ''acc-1''), (''name'', JStr ''Nike'')]"

definition order :: json where
  "order = JObj [(''id'', JStr ''ord-1'')]"

definition dq :: string where
  "dq = [CHR 0x22]"

definition json_texts :: "(json \<times> string) list" where
  "json_texts =
     [(account, ''{'' @ dq @ ''id'' @ dq @ '':'' @ dq @ ''acc-1'' @ dq @ '','' @
                dq @ ''name'' @ dq @ '':'' @ dq @ ''Nike'' @ dq @ ''}''),
      (order, ''{'' @ dq @ ''id'' @ dq @ '':'' @ dq @ ''ord-1'' @ dq @ ''}''),
      (JNum 0, ''0'')]"

definition registry :: "string \<rightharpoonup> ((string \<times> json) list \<Rightarrow> nat \<Rightarrow> (string + json) \<times> nat)" where
  "registry =
     [''create_account'' \<mapsto> (\<lambda>args n. (Inr account, n + 1)),
      ''create_order'' \<mapsto> (\<lambda>args n. (Inr order, n + 1)),
      ''count_orders'' \<mapsto> (\<lambda>args n. (Inr (JNum 0), n + 1)),
      ''archive'' \<mapsto> (\<lambda>args n. (Inl ''storage offline'', n + 1))]"

definition demoEnv :: "Plan \<Rightarrow> nat Env" where
  "demoEnv plan =
     \<lparr>toolHandlers = registry,
      stringify = (\<lambda>v. case map_of json_texts v of None \<Rightarrow> [] | Some t \<Rightarrow> t),
      parse = map_of (map (\<lambda>(v, t). (t, v)) json_texts),
      completion = (\<lambda>text. Inr (Some ''plan'')),
      parsePlan = (\<lambda>content. Inr plan),
      stamp = (\<lambda>k. (''msg-'' @ show_nat k, ''time-'' @ show_nat k))\<rparr>"

definition steps_plan :: "Step list \<Rightarrow> Plan" where
  "steps_plan ss = \<lparr>plan_toolName = [], plan_toolParams = JNull, plan_steps = Some ss\<rparr>"

definition single_plan :: "string \<Rightarrow> json \<Rightarrow> Plan" where
  "single_plan name ps = \<lparr>plan_toolName = name, plan_toolParams = ps, plan_steps = None\<rparr>"

definition hello :: Message where
  "hello = \<lparr>msg_messageId = ''m-1'', msg_role = User,
            msg_parts = Some [TextPart ''Create an account for Nike''],
            msg_contextId = None, msg_taskId = None, msg_timestamp = None\<rparr>"

definition reply :: Message where
  "reply = \<lparr>msg_messageId = ''m-2'', msg_role = Agent,
            msg_parts = Some [TextPart ''Successfully executed create_account'', DataPart account],
            msg_contextId = Some ''ctx-1'', msg_taskId = Some ''task-1'', msg_timestamp = Some ''time-1''\<rparr>"

definition task1 :: "TaskState \<Rightarrow> Message list \<Rightarrow> Task" where
  "task1 st h =
     \<lparr>task_id = ''task-1'', task_contextId = ''ctx-1'',
      task_status = \<lparr>st_state = st, st_timestamp = ''time-0'', st_message = None\<rparr>,
      task_history = h\<rparr>"

definition router1 :: "Task \<Rightarrow> Router" where
  "router1 t = \<lparr>tasks = [''task-1'' \<mapsto> t], draws = 2\<rparr>"

definition taskParams :: "string \<Rightarrow> Params" where
  "taskParams k = \<lparr>p_message = None, p_contextId = None, p_taskId = Some k\<rparr>"

definition ctx1 :: ExecutionContext where
  "ctx1 = \<lparr>ctx_message = hello, ctx_contextId = ''ctx-1'', ctx_taskId = ''task-1''\<rparr>"


definition three_steps :: "Step list" where
  "three_steps =
     [\<lparr>toolName = ''create_account'', toolParams = JObj [(''name'', JStr ''Nike'')]\<rparr>,
      \<lparr>toolName = ''archive'', toolParams = JObj [(''accountId'', JStr PLACEHOLDER)]\<rparr>,
      \<lparr>toolName = ''create_order'', toolParams = JObj [(''accountId'', JStr PLACEHOLDER)]\<rparr>]"

text \<open>A generator that never repeats a value, and send-message parameters.\<close>

definition uuid_seq :: "nat \<Rightarrow> string" where
  "uuid_seq n = ''uuid-'' @ replicate n (CHR ''x'')"

definition sendParams :: "Message \<Rightarrow> string option \<Rightarrow> Params" where
  "sendParams m c = \<lparr>p_message = Some m, p_contextId = c, p_taskId = None\<rparr>"

text \<open>
  A server whose answers to \<open>getTask\<close> show the task progressing (working with the user
  message, working with one agent message, then completed with two), a server that
  answers \<open>canceled\<close> every time, and a client that has stored the task as returned by
  send-message.
\<close>

definition reply2 :: Message where
  "reply2 = \<lparr>msg_messageId = ''m-3'', msg_role = Agent,
             msg_parts = Some [TextPart ''Successfully executed create_order'', DataPart order],
             msg_contextId = Some ''ctx-1'', msg_taskId = Some ''task-1'', msg_timestamp = Some ''time-2''\<rparr>"

definition progress :: "nat \<Rightarrow> string + Task" where
  "progress k =
     Inr (if k = 0 then task1 Working [hello]
          else if k = 1 then task1 Working [hello, reply]
          else task1 Completed [hello, reply, reply2])"


definition client1 :: Client where
  "client1 = \<lparr>c_tasks = [''task-1'' \<mapsto> task1 Working [hello]], requestId = 2, chat = []\<rparr>"

text \<open>
  An agent message with a data fragment and no text, a server that answers with a
  completed task holding it, a user message without \<open>parts\<close>, a plan whose first
  step returns no \<open>id\<close>, and a plan whose second step has the sentinel at the top
  level, inside an object and inside an array.
\<close>

definition dataonly :: Message where
  "dataonly = \<lparr>msg_messageId = ''m-4'', msg_role = Agent,
               msg_parts = Some [DataPart account],
               msg_contextId = Some ''ctx-1'', msg_taskId = Some ''task-1'', msg_timestamp = Some ''time-1''\<rparr>"

definition finished_at_once :: "nat \<Rightarrow> string + Task" where
  "finished_at_once k = Inr (task1 Completed [hello, dataonly, reply])"

definition bare :: Message where
  "bare = \<lparr>msg_messageId = ''m-5'', msg_role = User, msg_parts = None,
           msg_contextId = None, msg_taskId = None, msg_timestamp = None\<rparr>"



section \<open>Terminal tasks under publish, finished and cancel\<close>

text \<open>
  Neither closure of the event bus nor \<open>handleCancelTask\<close> looks at the state of the
  task: a completed task still takes a published message, \<open>finished\<close> turns a canceled
  task into a completed one, and cancel turns a failed task into a canceled one.
\<close>

theorem terminal_calls_counterexample:
  "terminal (task1 Completed [hello, reply]) \<and>
   task_history (publish reply (task1 Completed [hello, reply])) = [hello, reply, reply] \<and>
   terminal (task1 Canceled [hello]) \<and>
   st_state (task_status (finished ''time-9'' (task1 Canceled [hello]))) = Completed \<and>
   fst (handleCancelTask ''time-9'' (router1 (task1 Failed [hello])) (Some (taskParams ''task-1'')))
     = Inr ((task1 Failed [hello])\<lparr>task_status :=
              \<lparr>st_state = Canceled, st_timestamp = ''time-9'', st_message = None\<rparr>\<rparr>)"
  by (simp add: terminal_def publish_def finished_def handleCancelTask_def falsy_str_def
      task1_def router1_def taskParams_def Let_def)

text \<open>
  Claim C2, as the code has it. For a task in a terminal state: \<open>publish\<close> appends the
  message to the history and leaves the status as it is; \<open>finished\<close> leaves the history
  as it is and sets the state to \<open>completed\<close>; cancel leaves the history as it is, sets
  the state to \<open>canceled\<close> and stores and returns the task. After each of the three
  calls the task is still in a terminal state.
\<close>

theorem terminal_calls:
  assumes "terminal t" and "tasks r k = Some t" and "k \<noteq> []" and "p_taskId p = Some k"
  shows "task_history (publish m t) = task_history t @ [m] \<and>
         task_status (publish m t) = task_status t \<and> terminal (publish m t) \<and>
         task_history (finished now t) = task_history t \<and>
         st_state (task_status (finished now t)) = Completed \<and> terminal (finished now t) \<and>
         (\<exists>t'. handleCancelTask now r (Some p) = (Inr t', r\<lparr>tasks := (tasks r)(k \<mapsto> t')\<rparr>) \<and>
               task_history t' = task_history t \<and> st_state (task_status t') = Canceled \<and> terminal t')"
  using assms
  by (simp add: terminal_def publish_def finished_def handleCancelTask_def falsy_str_def Let_def)

theorem terminal_calls_witness:
  "terminal (task1 Completed [hello, reply]) \<and>
   task_history (publish reply (task1 Completed [hello, reply])) = [hello, reply] @ [reply] \<and>
   terminal (finished ''time-9'' (task1 Completed [hello, reply])) \<and>
   (\<exists>t'. fst (handleCancelTask ''time-9'' (router1 (task1 Completed [hello, reply]))
                (Some (taskParams ''task-1''))) = Inr t' \<and>
         task_history t' = [hello, reply] \<and> st_state (task_status t') = Canceled)"
proof -
  have t: "terminal (task1 Completed [hello, reply])"
    by (simp add: terminal_def task1_def)
  have s: "tasks (router1 (task1 Completed [hello, reply])) ''task-1'' = Some (task1 Completed [hello, reply])"
    by (simp add: router1_def)
  have p: "p_taskId (taskParams ''task-1'') = Some ''task-1''"
    by (simp add: taskParams_def)
  from terminal_calls [OF t s _ p, of reply "''time-9''"] t
  show ?thesis by (auto simp: task1_def)
qed

section \<open>Cancelling a task\<close>

text \<open>Cancelling a completed task does not return it unchanged: it comes back \<open>canceled\<close>.\<close>

theorem cancel_completed_counterexample:
  "tasks (router1 (task1 Completed [hello, reply])) ''task-1'' = Some (task1 Completed [hello, reply]) \<and>
   fst (handleCancelTask ''time-9'' (router1 (task1 Completed [hello, reply])) (Some (taskParams ''task-1'')))
     \<noteq> Inr (task1 Completed [hello, reply]) \<and>
   (case fst (handleCancelTask ''time-9'' (router1 (task1 Completed [hello, reply]))
               (Some (taskParams ''task-1''))) of
      Inl e \<Rightarrow> False
    | Inr t \<Rightarrow> st_state (task_status t) = Canceled)"
  by (simp add: handleCancelTask_def falsy_str_def task1_def router1_def taskParams_def Let_def)

text \<open>
  Claim C3, as the code has it. For a cancel-task request with a non-empty task id: if
  the store holds a task under that id, whatever its state, the task gets the status
  \<open>canceled\<close> (its id, context and history untouched), is stored and is returned; if
  the store holds none, the RPC error \<open>-32000\<close> (task not found) is raised and the
  store is unchanged.
\<close>

theorem cancel_task_result:
  assumes "p_taskId p = Some k" and "k \<noteq> []"
  shows "handleCancelTask now r (Some p) =
     (case tasks r k of
        None \<Rightarrow> (Inl (RPCError (- 32000) (''Task not found: '' @ k)), r)
      | Some t \<Rightarrow>
          (Inr (t\<lparr>task_status := \<lparr>st_state = Canceled, st_timestamp = now, st_message = None\<rparr>\<rparr>),
           r\<lparr>tasks := (tasks r)(k \<mapsto>
                t\<lparr>task_status := \<lparr>st_state = Canceled, st_timestamp = now, st_message = None\<rparr>\<rparr>)\<rparr>))"
  using assms
  by (simp add: handleCancelTask_def falsy_str_def createRPCError_def Let_def split: option.splits)

theorem cancel_task_result_witness:
  "fst (handleCancelTask ''time-9'' (router1 (task1 Working [hello])) (Some (taskParams ''task-1''))) =
     Inr (task1 Working [hello]\<lparr>task_status :=
            \<lparr>st_state = Canceled, st_timestamp = ''time-9'', st_message = None\<rparr>\<rparr>) \<and>
   fst (handleCancelTask ''time-9'' (router1 (task1 Working [hello])) (Some (taskParams ''task-2''))) =
     Inl (RPCError (- 32000) ''Task not found: task-2'')"
proof -
  have a: "p_taskId (taskParams ''task-1'') = Some ''task-1''"
    "p_taskId (taskParams ''task-2'') = Some ''task-2''"
    by (simp_all add: taskParams_def)
  show ?thesis
    using cancel_task_result [OF a(1), of "''time-9''" "router1 (task1 Working [hello])"]
          cancel_task_result [OF a(2), of "''time-9''" "router1 (task1 Working [hello])"]
    by (simp add: router1_def)
qed

section \<open>The step executor: placeholder substitution\<close>

lemmas scenario = account_def order_def dq_def json_texts_def registry_def demoEnv_def
  steps_plan_def single_plan_def hello_def ctx1_def task1_def
lemmas run_defs = execute_def extractTextFromMessage_def selectToolWithAI_def falsy_str_def
  executeTool_def callTool_def resolve_params_def has_truthy_id_def substitute_def
  createAgentMessage_def errorMessage_def stepText_def summaryText_def results_json_def
  List.map_filter_def Let_def







lemma executeTool_unregistered:
  "toolHandlers E name = None \<Longrightarrow> \<exists>err. fst (executeTool E name params s) = Inl err"
  by (simp add: executeTool_def callTool_def)













section \<open>The step executor: runs\<close>

text \<open>
  Whenever the user message has parts, the run of \<open>execute\<close> ends with a call of
  \<open>finished\<close> and its promise does not reject: whatever happened, the background
  execution leaves the task \<open>completed\<close>.
\<close>

lemma bus_ends_finished:
  "task_status (foldl (apply_bus now) task (calls @ [Finished])) =
     \<lparr>st_state = Completed, st_timestamp = now, st_message = None\<rparr> \<and>
   task_history (foldl (apply_bus now) task (map Publish msgs)) = task_history task @ msgs"
proof -
  have "task_history (foldl (apply_bus now) task (map Publish msgs)) = task_history task @ msgs"
    by (induction msgs arbitrary: task) (simp_all add: apply_bus_def publish_def)
  then show ?thesis
    by (simp add: apply_bus_def finished_def)
qed

lemma background_parts:
  assumes "msg_parts message = Some ps"
  shows "background E now message task s =
           settle now
             (execute E \<lparr>ctx_message = message, ctx_contextId = task_contextId task,
                         ctx_taskId = task_id task\<rparr> s)
             task"
  using assms by (simp add: background_def extractTextFromMessage_def)

lemma execution_ends_completed:
  assumes "msg_parts message = Some ps"
  shows "task_status (background E now message task s) =
           \<lparr>st_state = Completed, st_timestamp = now, st_message = None\<rparr>"
proof -
  let ?ctx = "\<lparr>ctx_message = message, ctx_contextId = task_contextId task, ctx_taskId = task_id task\<rparr>"
  have "rejected (execute E ?ctx s) = None \<and> (\<exists>calls. bus (execute E ?ctx s) = calls @ [Finished])"
    using assms
    by (auto simp: execute_def extractTextFromMessage_def Let_def split: sum.splits)
  then obtain calls where "rejected (execute E ?ctx s) = None" "bus (execute E ?ctx s) = calls @ [Finished]"
    by blast
  then show ?thesis
    using bus_ends_finished [of now task calls]
    by (simp add: background_parts [OF assms] settle_def)
qed

text \<open>
  Claim C1 at a three-step plan whose second tool throws. The third step is not
  invoked, and the history ends with the first step's message and one error message;
  but the \<open>catch\<close> branch calls \<open>finished\<close>, so the task ends \<open>completed\<close>, with no
  failure reason in its status.
\<close>

theorem step_fault_run:
  "invoked (execute (demoEnv (steps_plan three_steps)) ctx1 0) =
     [(''create_account'', [(''name'', JStr ''Nike'')]), (''archive'', [(''accountId'', JStr ''acc-1'')])] \<and>
   background (demoEnv (steps_plan three_steps)) ''time-9'' hello (task1 Working [hello]) 0 =
     \<lparr>task_id = ''task-1'', task_contextId = ''ctx-1'',
      task_status = \<lparr>st_state = Completed, st_timestamp = ''time-9'', st_message = None\<rparr>,
      task_history =
        [hello,
         createAgentMessage (''msg-0'', ''time-0'') ''Step 1/3: Successfully executed create_account''
           account ''ctx-1'' ''task-1'',
         createAgentMessage (''msg-1'', ''time-1'')
           ''Error: Tool execution failed: Tool execution failed: storage offline''
           JNull ''ctx-1'' ''task-1'']\<rparr>"
  by (simp add: three_steps_def scenario run_defs PLACEHOLDER_def show_nat.simps digit_def
      background_def settle_def apply_bus_def publish_def finished_def)

text \<open>
  A single step whose result is the number \<open>0\<close>: the summary message has a text
  fragment and no data fragment.
\<close>

theorem falsy_result_counterexample:
  "background (demoEnv (single_plan ''count_orders'' (JObj []))) ''time-9'' hello (task1 Working [hello]) 0 =
     \<lparr>task_id = ''task-1'', task_contextId = ''ctx-1'',
      task_status = \<lparr>st_state = Completed, st_timestamp = ''time-9'', st_message = None\<rparr>,
      task_history =
        [hello,
         \<lparr>msg_messageId = ''msg-0'', msg_role = Agent,
          msg_parts = Some [TextPart ''Successfully executed count_orders''],
          msg_contextId = Some ''ctx-1'', msg_taskId = Some ''task-1'',
          msg_timestamp = Some ''time-0''\<rparr>]\<rparr>"
  by (simp add: scenario run_defs PLACEHOLDER_def show_nat.simps digit_def
      background_def settle_def apply_bus_def publish_def finished_def)

text \<open>
  Claim C6, as the code has it. A send-message whose message has parts, whose plan
  normalises to one step and whose step succeeds with \<open>result\<close>: the task is returned
  \<open>working\<close> with the user's message as its history, and the execution leaves it
  \<open>completed\<close> with exactly two messages, the user's and one agent summary whose parts
  are the text fragment followed by a data fragment carrying \<open>result\<close> when \<open>result\<close>
  is truthy, and the text fragment alone when it is falsy.
\<close>

theorem single_step_success:
  assumes "handleSendMessage uuidv4 t0 r (Some p) = (Inr task, r')"
    and "p_message p = Some message"
    and "msg_parts message = Some ps"
    and "selectToolWithAI E (join '' '' (List.map_filter part_text ps)) = Inr plan"
    and "(case plan_steps plan of
            Some ss \<Rightarrow> ss
          | None \<Rightarrow> [\<lparr>toolName = plan_toolName plan, toolParams = plan_toolParams plan\<rparr>]) = [step]"
    and "executeTool E (toolName step) (spread (toolParams step)) s = (Inr result, s')"
  shows "st_state (task_status task) = Working \<and> task_history task = [message] \<and>
     background E now message task s =
       task\<lparr>task_status := \<lparr>st_state = Completed, st_timestamp = now, st_message = None\<rparr>,
            task_history :=
              [message,
               \<lparr>msg_messageId = fst (stamp E 0), msg_role = Agent,
                msg_parts = Some (TextPart (''Successfully executed '' @ toolName step) #
                                  (if truthy result then [DataPart result] else [])),
                msg_contextId = Some (task_contextId task), msg_taskId = Some (task_id task),
                msg_timestamp = Some (snd (stamp E 0))\<rparr>]\<rparr>"
proof -
  from assms(1,2,3) have task: "st_state (task_status task) = Working" "task_history task = [message]"
    by (auto simp: handleSendMessage_def extractTextFromMessage_def Let_def)
  have rp: "resolve_params JNull (toolParams step) = spread (toolParams step)"
    by (simp add: resolve_params_def has_truthy_id_def)
  let ?ctx = "\<lparr>ctx_message = message, ctx_contextId = task_contextId task, ctx_taskId = task_id task\<rparr>"
  have loop: "steps_loop E ?ctx 1 0 JNull [step] s =
      \<lparr>l_invoked = [(toolName step, spread (toolParams step))], l_published = [],
       l_results = [(toolName step, result)], l_error = None, l_state = s'\<rparr>"
    using assms(6) by (simp add: rp Let_def)
  have run: "bus (execute E ?ctx s) =
      [Publish (createAgentMessage (stamp E 0) (''Successfully executed '' @ toolName step) result
                  (task_contextId task) (task_id task)), Finished] \<and>
      rejected (execute E ?ctx s) = None"
    using assms(3,4,5) loop
    by (simp add: execute_def extractTextFromMessage_def Let_def summaryText_def)
  show ?thesis
    using task run
    by (simp add: background_parts [OF assms(3)] settle_def apply_bus_def publish_def finished_def
        createAgentMessage_def)
qed

theorem single_step_success_witness:
  "background (demoEnv (single_plan ''create_account'' (JObj [(''name'', JStr ''Nike'')]))) ''time-9'' hello
     \<lparr>task_id = ''uuid-'', task_contextId = ''uuid-x'',
      task_status = \<lparr>st_state = Working, st_timestamp = ''time-0'', st_message = None\<rparr>,
      task_history = [hello]\<rparr> 0 =
     \<lparr>task_id = ''uuid-'', task_contextId = ''uuid-x'',
      task_status = \<lparr>st_state = Completed, st_timestamp = ''time-9'', st_message = None\<rparr>,
      task_history =
        [hello,
         \<lparr>msg_messageId = ''msg-0'', msg_role = Agent,
          msg_parts = Some [TextPart ''Successfully executed create_account'', DataPart account],
          msg_contextId = Some ''uuid-x'', msg_taskId = Some ''uuid-'',
          msg_timestamp = Some ''time-0''\<rparr>]\<rparr>"
proof -
  let ?E = "demoEnv (single_plan ''create_account'' (JObj [(''name'', JStr ''Nike'')]))"
  let ?step = "\<lparr>toolName = ''create_account'', toolParams = JObj [(''name'', JStr ''Nike'')]\<rparr>"
  have a1: "handleSendMessage uuid_seq ''time-0'' router0 (Some (sendParams hello None)) =
      (Inr \<lparr>task_id = ''uuid-'', task_contextId = ''uuid-x'',
            task_status = \<lparr>st_state = Working, st_timestamp = ''time-0'', st_message = None\<rparr>,
            task_history = [hello]\<rparr>,
       \<lparr>tasks = [''uuid-'' \<mapsto> \<lparr>task_id = ''uuid-'', task_contextId = ''uuid-x'',
            task_status = \<lparr>st_state = Working, st_timestamp = ''time-0'', st_message = None\<rparr>,
            task_history = [hello]\<rparr>], draws = 2\<rparr>)"
    by (simp add: handleSendMessage_def extractTextFromMessage_def hello_def sendParams_def
        router0_def uuid_seq_def falsy_str_def Let_def)
  have a2: "p_message (sendParams hello None) = Some hello"
    by (simp add: sendParams_def)
  have a3: "msg_parts hello = Some [TextPart ''Create an account for Nike'']"
    by (simp add: hello_def)
  have a4: "selectToolWithAI ?E (join '' '' (List.map_filter part_text [TextPart ''Create an account for Nike'']))
      = Inr (single_plan ''create_account'' (JObj [(''name'', JStr ''Nike'')]))"
    by (simp add: selectToolWithAI_def demoEnv_def falsy_str_def)
  have a5: "(case plan_steps (single_plan ''create_account'' (JObj [(''name'', JStr ''Nike'')])) of
            Some ss \<Rightarrow> ss
          | None \<Rightarrow> [\<lparr>toolName = plan_toolName (single_plan ''create_account'' (JObj [(''name'', JStr ''Nike'')])),
                       toolParams = plan_toolParams (single_plan ''create_account'' (JObj [(''name'', JStr ''Nike'')]))\<rparr>])
        = [?step]"
    by (simp add: single_plan_def)
  have a6: "executeTool ?E (toolName ?step) (spread (toolParams ?step)) 0 = (Inr account, 1)"
    by (simp add: scenario executeTool_def callTool_def)
  show ?thesis
    using single_step_success [OF a1 a2 a3 a4 a5 a6, of "''time-9''"]
    by (simp add: demoEnv_def show_nat.simps digit_def account_def)
qed

section \<open>Creating tasks\<close>

text \<open>
  The draw counter never decreases and every key of the store is a value drawn earlier;
  \<open>gen\<close> is the sequence of values that \<open>uuidv4\<close> returns to the router.
\<close>

lemma send_draws:
  "draws r \<le> draws (snd (handleSendMessage gen now r params)) \<and>
   dom (tasks (snd (handleSendMessage gen now r params))) \<subseteq> dom (tasks r) \<union> gen ` {..<draws (snd (handleSendMessage gen now r params))}"
  by (auto simp: handleSendMessage_def Let_def split: option.splits)

lemma cancel_draws:
  "draws (snd (handleCancelTask now r params)) = draws r \<and>
   dom (tasks (snd (handleCancelTask now r params))) = dom (tasks r)"
  by (auto simp: handleCancelTask_def Let_def split: option.splits)

lemma dispatch_draws:
  "draws r \<le> draws (snd (dispatch gen now r request)) \<and>
   dom (tasks (snd (dispatch gen now r request))) \<subseteq>
     dom (tasks r) \<union> gen ` {..<draws (snd (dispatch gen now r request))}"
  unfolding dispatch_def
  by (simp add: send_draws cancel_draws del: insert_iff)

lemma handle_draws:
  "draws r \<le> draws (snd (handleJSONRPC gen now r request)) \<and>
   dom (tasks (snd (handleJSONRPC gen now r request))) \<subseteq>
     dom (tasks r) \<union> gen ` {..<draws (snd (handleJSONRPC gen now r request))}"
proof (cases "dispatch gen now r request")
  case (Pair out r')
  then have "snd (handleJSONRPC gen now r request) = r \<or> snd (handleJSONRPC gen now r request) = r'"
    by (simp add: handleJSONRPC_def split: sum.splits)
  moreover have "draws r \<le> draws r' \<and> dom (tasks r') \<subseteq> dom (tasks r) \<union> gen ` {..<draws r'}"
    using dispatch_draws [where r = r and gen = gen and now = now and request = request] Pair
    by simp
  ultimately show ?thesis by auto
qed

lemma on_task_draws:
  "draws (on_task k f r) = draws r \<and> dom (tasks (on_task k f r)) = dom (tasks r)"
  by (auto simp: on_task_def split: option.splits)

lemma step_draws:
  "draws r \<le> draws (router_step gen r e) \<and>
   dom (tasks (router_step gen r e)) \<subseteq> dom (tasks r) \<union> gen ` {..<draws (router_step gen r e)}"
  by (cases e) (simp_all add: handle_draws on_task_draws)

lemma steps_draws:
  "draws r \<le> draws (foldl (router_step gen) r es) \<and>
   dom (tasks (foldl (router_step gen) r es)) \<subseteq>
     dom (tasks r) \<union> gen ` {..<draws (foldl (router_step gen) r es)}"
proof (induction es arbitrary: r)
  case Nil
  show ?case by simp
next
  case (Cons e es)
  let ?r1 = "router_step gen r e"
  let ?r2 = "foldl (router_step gen) ?r1 es"
  have ab: "draws r \<le> draws ?r1 \<and> dom (tasks ?r1) \<subseteq> dom (tasks r) \<union> gen ` {..<draws ?r1}"
    by (rule step_draws)
  have cd: "draws ?r1 \<le> draws ?r2 \<and> dom (tasks ?r2) \<subseteq> dom (tasks ?r1) \<union> gen ` {..<draws ?r2}"
    by (rule Cons.IH)
  have e: "gen ` {..<draws ?r1} \<subseteq> gen ` {..<draws ?r2}"
    using cd by (intro image_mono) simp
  have "dom (tasks ?r2) \<subseteq> dom (tasks r) \<union> gen ` {..<draws ?r2}"
    using ab cd e by blast
  moreover have "draws r \<le> draws ?r2"
    using ab cd by linarith
  ultimately show ?case by simp
qed

lemma reachable_ids_drawn:
  "dom (tasks (foldl (router_step gen) router0 es)) \<subseteq> gen ` {..<draws (foldl (router_step gen) router0 es)}"
  using steps_draws [where r = router0 and gen = gen and es = es] by (simp add: router0_def)

lemma inj_uuid_seq: "inj uuid_seq"
proof (rule injI)
  fix m n
  assume "uuid_seq m = uuid_seq n"
  then have "replicate m (CHR ''x'') = replicate n (CHR ''x'')"
    by (simp add: uuid_seq_def)
  then have "length (replicate m (CHR ''x'')) = length (replicate n (CHR ''x''))"
    by (rule arg_cong)
  then show "m = n" by simp
qed

text \<open>
  A send-message that supplies the empty string as \<open>contextId\<close> gets a generated
  context id, not the supplied one. A send-message whose message has no \<open>parts\<close>
  succeeds, and the task it returns is \<open>failed\<close> already: the execution has rejected
  and the router's \<open>catch\<close> handler has run before the caller has the task.
\<close>

theorem empty_context_counterexample:
  "fst (handleSendMessage uuid_seq ''time-0'' router0 (Some (sendParams hello (Some '''')))) =
     Inr \<lparr>task_id = ''uuid-'', task_contextId = ''uuid-x'',
          task_status = \<lparr>st_state = Working, st_timestamp = ''time-0'', st_message = None\<rparr>,
          task_history = [hello]\<rparr> \<and>
   fst (handleSendMessage uuid_seq ''time-0'' router0 (Some (sendParams bare (Some ''ctx-7'')))) =
     Inr \<lparr>task_id = ''uuid-'', task_contextId = ''ctx-7'',
          task_status = \<lparr>st_state = Failed, st_timestamp = ''time-0'',
                         st_message = Some ''Cannot read properties of undefined (reading 'filter')''\<rparr>,
          task_history = [bare]\<rparr>"
  by (simp add: handleSendMessage_def extractTextFromMessage_def execute_rejected_def hello_def
      bare_def sendParams_def router0_def uuid_seq_def falsy_str_def Let_def)

text \<open>
  Claim C10, as the code has it. Let \<open>uuidv4\<close> never repeat a value and let the router
  have reached its state from the empty one by any requests and event-bus calls. A
  send-message whose message has \<open>parts\<close> stores and returns a task whose id is the
  next value drawn, absent from the store before; whose status is \<open>working\<close>; whose
  history is the caller's message alone; and whose context id is the caller's when
  that is a non-empty string and the value drawn next otherwise. No later send-message
  returns the same task id.
\<close>

theorem send_message_fresh_task:
  assumes "inj gen"
    and "r = foldl (router_step gen) router0 before"
    and "p_message p = Some message"
    and "msg_parts message = Some ps"
  shows "\<exists>task r1. handleSendMessage gen now r (Some p) = (Inr task, r1) \<and>
           task_id task = gen (draws r) \<and> task_id task \<notin> dom (tasks r) \<and>
           tasks r1 = (tasks r)(task_id task \<mapsto> task) \<and>
           task_status task = \<lparr>st_state = Working, st_timestamp = now, st_message = None\<rparr> \<and>
           task_history task = [message] \<and>
           task_contextId task =
             (if falsy_str (p_contextId p) then gen (draws r + 1) else the (p_contextId p)) \<and>
           (\<forall>between now' p' task' r2.
               handleSendMessage gen now' (foldl (router_step gen) r1 between) (Some p') = (Inr task', r2)
               \<longrightarrow> task_id task' \<noteq> task_id task)"
proof -
  define task where "task =
     \<lparr>task_id = gen (draws r),
      task_contextId = (if falsy_str (p_contextId p) then gen (draws r + 1) else the (p_contextId p)),
      task_status = \<lparr>st_state = Working, st_timestamp = now, st_message = None\<rparr>,
      task_history = [message]\<rparr>"
  define r1 where "r1 =
     \<lparr>tasks = (tasks r)(gen (draws r) \<mapsto> task),
      draws = draws r + (if falsy_str (p_contextId p) then 2 else 1)\<rparr>"
  have send: "handleSendMessage gen now r (Some p) = (Inr task, r1)"
    using assms(3,4)
    by (simp add: handleSendMessage_def extractTextFromMessage_def Let_def task_def r1_def)
  have tid: "task_id task = gen (draws r)"
    and rest: "task_status task = \<lparr>st_state = Working, st_timestamp = now, st_message = None\<rparr>"
      "task_history task = [message]"
      "task_contextId task = (if falsy_str (p_contextId p) then gen (draws r + 1) else the (p_contextId p))"
    by (simp_all add: task_def)
  have r1: "tasks r1 = (tasks r)(task_id task \<mapsto> task)" "draws r < draws r1"
    by (simp_all add: r1_def task_def)
  have fresh: "task_id task \<notin> dom (tasks r)"
  proof
    assume "task_id task \<in> dom (tasks r)"
    with reachable_ids_drawn [where gen = gen and es = before] assms(2) tid
    obtain j where "j < draws r" "gen j = gen (draws r)" by auto
    with assms(1) show False by (auto dest: injD)
  qed
  have later: "task_id task' \<noteq> task_id task"
    if "handleSendMessage gen now' (foldl (router_step gen) r1 between) (Some p') = (Inr task', r2)"
    for between now' p' task' r2
  proof -
    from that have "task_id task' = gen (draws (foldl (router_step gen) r1 between))"
      by (auto simp: handleSendMessage_def execute_rejected_def Let_def
          split: option.splits sum.splits)
    moreover have "draws r < draws (foldl (router_step gen) r1 between)"
      using steps_draws [where r = r1 and gen = gen and es = between] r1(2) by simp
    ultimately show ?thesis
      using tid assms(1) by (auto dest: injD)
  qed
  show ?thesis
  proof (intro exI [where x = task] exI [where x = r1] conjI allI impI)
    fix between now' p' task' r2
    assume "handleSendMessage gen now' (foldl (router_step gen) r1 between) (Some p') = (Inr task', r2)"
    then show "task_id task' \<noteq> task_id task" by (rule later)
  qed (fact send tid fresh r1(1) rest)+
qed

theorem send_message_fresh_task_witness:
  "\<exists>task r1. handleSendMessage uuid_seq ''time-0'' router0 (Some (sendParams hello (Some ''ctx-7''))) = (Inr task, r1) \<and>
      task_id task = ''uuid-'' \<and> task_contextId task = ''ctx-7'' \<and> task_history task = [hello] \<and>
      st_state (task_status task) = Working \<and> tasks r1 ''uuid-'' = Some task"
proof -
  have r: "router0 = foldl (router_step uuid_seq) router0 []" by simp
  have m: "p_message (sendParams hello (Some ''ctx-7'')) = Some hello"
    by (simp add: sendParams_def)
  have ps: "msg_parts hello = Some [TextPart ''Create an account for Nike'']"
    by (simp add: hello_def)
  from send_message_fresh_task [OF inj_uuid_seq r m ps, of "''time-0''"]
  obtain task r1 where
    "handleSendMessage uuid_seq ''time-0'' router0 (Some (sendParams hello (Some ''ctx-7''))) = (Inr task, r1)"
    "task_id task = uuid_seq (draws router0)"
    "tasks r1 = (tasks router0)(task_id task \<mapsto> task)"
    "task_status task = \<lparr>st_state = Working, st_timestamp = ''time-0'', st_message = None\<rparr>"
    "task_history task = [hello]"
    "task_contextId task =
       (if falsy_str (p_contextId (sendParams hello (Some ''ctx-7''))) then uuid_seq (draws router0 + 1)
        else the (p_contextId (sendParams hello (Some ''ctx-7''))))"
    by blast
  then show ?thesis
    by (intro exI [where x = task] exI [where x = r1])
       (simp add: sendParams_def falsy_str_def uuid_seq_def router0_def)
qed

section \<open>The JSON-RPC envelope\<close>

text \<open>
  A request whose \<open>jsonrpc\<close> member is not the string \<open>2.0\<close> is answered with error
  \<open>-32600\<close> and the router is left as it was; every other request is answered with
  \<open>request.id ?? null\<close> as its \<open>id\<close>. The two ways of computing the \<open>id\<close> differ
  exactly on a falsy \<open>id\<close> other than \<open>null\<close>.
\<close>

lemma invalid_envelope_rejected:
  "req_jsonrpc request \<noteq> Some (JStr ''2.0'') \<Longrightarrow>
   handleJSONRPC gen now r request =
     (\<lparr>res_status = 200, res_jsonrpc = ''2.0'', res_result = None,
       res_error = Some (RPCError (- 32600) ''Invalid Request''),
       res_id = or_null (req_id request)\<rparr>, r)"
  by (simp add: handleJSONRPC_def)

lemma valid_envelope_echoes_id:
  "req_jsonrpc request = Some (JStr ''2.0'') \<Longrightarrow>
   res_id (fst (handleJSONRPC gen now r request)) = nullish (req_id request)"
  by (simp add: handleJSONRPC_def split: prod.splits sum.splits)

lemma or_null_drops_falsy:
  "or_null v = nullish v \<longleftrightarrow> (case v of None \<Rightarrow> True | Some x \<Rightarrow> truthy x \<or> x = JNull)"
  by (auto simp: or_null_def nullish_def split: option.splits)

text \<open>
  Claim C7 at a request with \<open>id\<close> \<open>0\<close>. With a wrong \<open>jsonrpc\<close> member the router
  answers \<open>-32600\<close> before any dispatch and leaves the store alone, but the answer's
  \<open>id\<close> is \<open>null\<close>: that branch computes \<open>request.id || null\<close>. The same request with
  \<open>jsonrpc\<close> \<open>2.0\<close> is answered with \<open>id\<close> \<open>0\<close>, through \<open>request.id ?? null\<close>.
\<close>

theorem invalid_envelope_id_zero:
  "handleJSONRPC uuid_seq ''time-0'' router0
     \<lparr>req_jsonrpc = Some (JStr ''1.0''), req_method = Some ''getTask'',
      req_params = Some (taskParams ''task-1''), req_id = Some (JNum 0)\<rparr> =
     (\<lparr>res_status = 200, res_jsonrpc = ''2.0'', res_result = None,
       res_error = Some (RPCError (- 32600) ''Invalid Request''), res_id = JNull\<rparr>, router0) \<and>
   handleJSONRPC uuid_seq ''time-0'' router0
     \<lparr>req_jsonrpc = Some (JStr ''2.0''), req_method = Some ''getTask'',
      req_params = Some (taskParams ''task-1''), req_id = Some (JNum 0)\<rparr> =
     (\<lparr>res_status = 400, res_jsonrpc = ''2.0'', res_result = None,
       res_error = Some (RPCError (- 32000) ''Task not found: task-1''), res_id = JNum 0\<rparr>, router0)"
  by (simp add: handleJSONRPC_def dispatch_def handleGetTaskRPC_def or_null_def nullish_def
      createRPCError_def falsy_str_def taskParams_def router0_def)

section \<open>The client reconciler: what is emitted\<close>


lemma prefix_filter_mono:
  "prefix xs ys \<Longrightarrow> prefix (filter P xs) (filter P ys)"
  by (auto simp: prefix_def)

lemma map_filter_append:
  "List.map_filter f (xs @ ys) = List.map_filter f xs @ List.map_filter f ys"
  by (simp add: List.map_filter_def)

lemma map_filter_renderAgent:
  "List.map_filter renderAgent msgs =
     map (\<lambda>m. (join [CHR 0x0A] (List.map_filter part_text (case msg_parts m of None \<Rightarrow> [] | Some ps \<Rightarrow> ps)),
               (case List.map_filter part_data (case msg_parts m of None \<Rightarrow> [] | Some ps \<Rightarrow> ps) of
                  [] \<Rightarrow> None
                | d # _ \<Rightarrow> Some d)))
       (filter (\<lambda>m. join [CHR 0x0A] (List.map_filter part_text (case msg_parts m of None \<Rightarrow> [] | Some ps \<Rightarrow> ps)) \<noteq> [])
          msgs)"
  by (induction msgs) (simp_all add: List.map_filter_def renderAgent_def Let_def)

lemma poll_step_working:
  assumes "attempts < maxAttempts" "getTask attempts = Inr task"
    and "st_state (task_status task) = Working"
    and "shown = length A" "prefix A (agentMessages task)"
  shows "poll getTask taskId attempts shown c =
           poll getTask taskId (Suc attempts) (length (agentMessages task))
             (c\<lparr>requestId := requestId c + 1, c_tasks := (c_tasks c)(taskId \<mapsto> task),
                chat := chat c @ List.map_filter renderAgent (drop (length A) (agentMessages task))\<rparr>)"
proof -
  from assms(5) have le: "length A \<le> length (agentMessages task)"
    by (rule prefix_length_le)
  show ?thesis
  proof (cases "length (agentMessages task) > length A")
    case True
    with assms(1,2,3,4) show ?thesis
      by (subst poll.simps) (simp add: Let_def display_def)
  next
    case False
    with le have "length (agentMessages task) = length A" by simp
    with assms(1,2,3,4) show ?thesis
      by (subst poll.simps) (simp add: Let_def List.map_filter_def)
  qed
qed

lemma poll_step_last:
  assumes "attempts < maxAttempts" "getTask attempts = Inr task"
    and "st_state (task_status task) \<noteq> Working \<or> Suc attempts = maxAttempts"
    and "shown = length A" "prefix A (agentMessages task)"
  shows "poll getTask taskId attempts shown c =
           c\<lparr>requestId := requestId c + 1, c_tasks := (c_tasks c)(taskId \<mapsto> task),
              chat := chat c @ List.map_filter renderAgent (drop (length A) (agentMessages task))\<rparr>"
proof (cases "st_state (task_status task) = Working")
  case True
  with assms(3) have "Suc attempts = maxAttempts" by simp
  then have stop: "poll getTask taskId (Suc attempts) n c' = c'" for n c'
    by (subst poll.simps) simp
  from poll_step_working [where getTask = getTask and attempts = attempts, OF assms(1,2) True assms(4,5)] show ?thesis
    by (simp add: stop)
next
  case False
  from assms(5) have le: "length A \<le> length (agentMessages task)"
    by (rule prefix_length_le)
  show ?thesis
  proof (cases "length (agentMessages task) > length A")
    case True
    with False assms(1,2,4) show ?thesis
      by (subst poll.simps) (simp add: Let_def display_def)
  next
    case short: False
    with le have "length (agentMessages task) = length A" by simp
    with False assms(1,2,4) show ?thesis
      by (subst poll.simps) (simp add: Let_def List.map_filter_def)
  qed
qed

lemma poll_chat:
  assumes "attempts \<le> k" "k < maxAttempts"
    and "\<And>j. attempts \<le> j \<Longrightarrow> j < k \<Longrightarrow> \<exists>t. getTask j = Inr t \<and> st_state (task_status t) = Working"
    and "getTask k = Inr final"
    and "st_state (task_status final) \<noteq> Working \<or> Suc k = maxAttempts"
    and "shown = length A"
    and "\<And>j t. attempts \<le> j \<Longrightarrow> j \<le> k \<Longrightarrow> getTask j = Inr t \<Longrightarrow> prefix A (agentMessages t)"
    and "\<And>i j t u. attempts \<le> i \<Longrightarrow> i \<le> j \<Longrightarrow> j \<le> k \<Longrightarrow> getTask i = Inr t \<Longrightarrow> getTask j = Inr u \<Longrightarrow>
           prefix (agentMessages t) (agentMessages u)"
  shows "chat (poll getTask taskId attempts shown c) =
           chat c @ List.map_filter renderAgent (drop (length A) (agentMessages final)) \<and>
         c_tasks (poll getTask taskId attempts shown c) = (c_tasks c)(taskId \<mapsto> final) \<and>
         requestId (poll getTask taskId attempts shown c) = requestId c + (Suc k - attempts)"
  using assms
proof (induction "k - attempts" arbitrary: attempts shown c A)
  case 0
  then have "attempts = k" by simp
  from "0.prems"(7) [of k final] "0.prems"(4) \<open>attempts = k\<close>
  have pre: "prefix A (agentMessages final)" by simp
  from "0.prems"(2,4,5) \<open>attempts = k\<close>
  have "poll getTask taskId attempts shown c =
      c\<lparr>requestId := requestId c + 1, c_tasks := (c_tasks c)(taskId \<mapsto> final),
        chat := chat c @ List.map_filter renderAgent (drop (length A) (agentMessages final))\<rparr>"
    by (intro poll_step_last [where getTask = getTask and attempts = attempts, OF _ _ _ "0.prems"(6) pre]) simp_all
  with \<open>attempts = k\<close> show ?case by simp
next
  case (Suc d attempts shown c A)
  then have lt: "attempts < k" by simp
  with Suc.prems(3) [of attempts] obtain task where
    task: "getTask attempts = Inr task" "st_state (task_status task) = Working"
    by auto
  have preA: "prefix A (agentMessages task)"
    using Suc.prems(7) [of attempts task] task lt by simp
  from lt Suc.prems(2) have am: "attempts < maxAttempts" by simp
  let ?c2 = "c\<lparr>requestId := requestId c + 1, c_tasks := (c_tasks c)(taskId \<mapsto> task),
                chat := chat c @ List.map_filter renderAgent (drop (length A) (agentMessages task))\<rparr>"
  have unfold: "poll getTask taskId attempts shown c =
      poll getTask taskId (Suc attempts) (length (agentMessages task)) ?c2"
    by (rule poll_step_working [where getTask = getTask and attempts = attempts, OF am task Suc.prems(6) preA])
  have d: "d = k - Suc attempts" using Suc.hyps(2) by simp
  have le: "Suc attempts \<le> k" using lt by simp
  have h3: "\<exists>t. getTask j = Inr t \<and> st_state (task_status t) = Working"
    if "Suc attempts \<le> j" "j < k" for j
    using that by (intro Suc.prems(3)) simp_all
  have h7: "prefix (agentMessages task) (agentMessages t)"
    if "Suc attempts \<le> j" "j \<le> k" "getTask j = Inr t" for j t
    using that task(1) by (intro Suc.prems(8) [of attempts j task t]) simp_all
  have h8: "prefix (agentMessages t) (agentMessages u)"
    if "Suc attempts \<le> i" "i \<le> j" "j \<le> k" "getTask i = Inr t" "getTask j = Inr u" for i j t u
    using that by (intro Suc.prems(8) [of i j t u]) simp_all
  have ih: "chat (poll getTask taskId (Suc attempts) (length (agentMessages task)) ?c2) =
           chat ?c2 @ List.map_filter renderAgent (drop (length (agentMessages task)) (agentMessages final)) \<and>
         c_tasks (poll getTask taskId (Suc attempts) (length (agentMessages task)) ?c2) =
           (c_tasks ?c2)(taskId \<mapsto> final) \<and>
         requestId (poll getTask taskId (Suc attempts) (length (agentMessages task)) ?c2) =
           requestId ?c2 + (Suc k - Suc attempts)"
    by (rule Suc.hyps(1) [OF d le Suc.prems(2) h3 Suc.prems(4) Suc.prems(5) refl h7 h8])
  have preF: "prefix (agentMessages task) (agentMessages final)"
    using h7 [of k final] le Suc.prems(4) by simp
  then obtain rest where F: "agentMessages final = agentMessages task @ rest"
    by (auto simp: prefix_def)
  from preA have lenA: "length A \<le> length (agentMessages task)"
    by (rule prefix_length_le)
  have split: "drop (length A) (agentMessages final) =
      drop (length A) (agentMessages task) @ drop (length (agentMessages task)) (agentMessages final)"
    using lenA F by simp
  have rq: "requestId c + 1 + (Suc k - Suc attempts) = requestId c + (Suc k - attempts)"
    using lt by arith
  from ih show ?case
    unfolding unfold split map_filter_append using rq by simp
qed

text \<open>
  An agent message whose parts hold no text is not emitted: of the two agent messages
  of the completed task only the second reaches \<open>addAgentMessage\<close>. And a task that
  \<open>handleTask\<close> receives with a history of one message, an agent's, never has it
  emitted: the display is skipped for a history of length one, and the polling
  counts the message among those shown.
\<close>

theorem textless_message_counterexample:
  "chat (pollTask finished_at_once ''task-1'' client1) =
     [(''Successfully executed create_account'', Some account)] \<and>
   agentMessages (task1 Completed [hello, dataonly, reply]) = [dataonly, reply] \<and>
   c_tasks (pollTask finished_at_once ''task-1'' client1) ''task-1'' =
     Some (task1 Completed [hello, dataonly, reply]) \<and>
   chat (handleTask (\<lambda>k. Inr (task1 Completed [reply])) (task1 Working [reply])
           \<lparr>c_tasks = Map.empty, requestId = 0, chat = []\<rparr>) = [] \<and>
   agentMessages (task1 Completed [reply]) = [reply]"
proof -
  have a: "pollTask finished_at_once ''task-1'' client1 =
      \<lparr>c_tasks = [''task-1'' \<mapsto> task1 Completed [hello, dataonly, reply]], requestId = 3,
       chat = [(''Successfully executed create_account'', Some account)]\<rparr>"
    unfolding pollTask_def
    by (subst poll.simps)
       (simp add: client1_def finished_at_once_def maxAttempts_def agentMessages_def task1_def
          hello_def dataonly_def reply_def display_def renderAgent_def List.map_filter_def Let_def)
  have b: "handleTask (\<lambda>k. Inr (task1 Completed [reply])) (task1 Working [reply])
           \<lparr>c_tasks = Map.empty, requestId = 0, chat = []\<rparr> =
      \<lparr>c_tasks = [''task-1'' \<mapsto> task1 Completed [reply]], requestId = 1, chat = []\<rparr>"
    unfolding handleTask_def pollTask_def
    by (subst poll.simps)
       (simp add: maxAttempts_def agentMessages_def task1_def reply_def Let_def)
  show ?thesis
    unfolding a b
    by (simp add: agentMessages_def task1_def hello_def dataonly_def reply_def)
qed

text \<open>
  Claim C5, as the code has it. Let \<open>pollTask\<close> receive \<open>working\<close> tasks for its first
  \<open>k\<close> requests and then a task \<open>final\<close> that is not \<open>working\<close> or is the answer to the
  last request allowed, and let the histories be append-only: each a prefix of the
  later ones, the stored task's a prefix of the first. Then, however the messages are
  spread over the requests, the calls of \<open>addAgentMessage\<close> made are, in history
  order and once each, those for the agent messages of \<open>final\<close> that come after the
  first \<open>n\<close> (the number of agent messages of the task stored when polling starts)
  and whose text fragments, joined, are not empty; each call has that text and the
  first data fragment. \<open>final\<close> is the task stored at the end, \<open>k + 1\<close> requests were
  made, and when \<open>final\<close> has the history of the task stored at the start, no call
  is made.
\<close>

theorem poll_emits_rendered_agent_messages:
  assumes "k < maxAttempts"
    and "\<forall>j<k. \<exists>t. getTask j = Inr t \<and> st_state (task_status t) = Working"
    and "getTask k = Inr final"
    and "st_state (task_status final) \<noteq> Working \<or> Suc k = maxAttempts"
    and "\<forall>i j t u. i \<le> j \<and> j \<le> k \<and> getTask i = Inr t \<and> getTask j = Inr u \<longrightarrow>
           prefix (task_history t) (task_history u)"
    and "\<forall>t u. c_tasks c taskId = Some t \<and> getTask 0 = Inr u \<longrightarrow>
           prefix (task_history t) (task_history u)"
    and "n = (case c_tasks c taskId of
                None \<Rightarrow> 0
              | Some t \<Rightarrow> length (filter (\<lambda>h. msg_role h = Agent) (task_history t)))"
  shows "chat (pollTask getTask taskId c) =
           chat c @
           map (\<lambda>m. (join [CHR 0x0A]
                        (List.map_filter part_text (case msg_parts m of None \<Rightarrow> [] | Some ps \<Rightarrow> ps)),
                      (case List.map_filter part_data (case msg_parts m of None \<Rightarrow> [] | Some ps \<Rightarrow> ps) of
                         [] \<Rightarrow> None
                       | d # _ \<Rightarrow> Some d)))
             (filter (\<lambda>m. join [CHR 0x0A]
                             (List.map_filter part_text (case msg_parts m of None \<Rightarrow> [] | Some ps \<Rightarrow> ps)) \<noteq> [])
                (drop n (filter (\<lambda>h. msg_role h = Agent) (task_history final)))) \<and>
         c_tasks (pollTask getTask taskId c) taskId = Some final \<and>
         requestId (pollTask getTask taskId c) = requestId c + k + 1 \<and>
         (\<forall>t. c_tasks c taskId = Some t \<and> task_history t = task_history final \<longrightarrow>
              chat (pollTask getTask taskId c) = chat c)"
proof -
  let ?A = "case c_tasks c taskId of None \<Rightarrow> [] | Some t \<Rightarrow> agentMessages t"
  have n: "n = length ?A"
    using assms(7) by (simp add: agentMessages_def split: option.splits)
  have start: "pollTask getTask taskId c = poll getTask taskId 0 (length ?A) c"
    by (simp add: pollTask_def split: option.splits)
  have h3: "\<exists>t. getTask j = Inr t \<and> st_state (task_status t) = Working" if "0 \<le> j" "j < k" for j
    using assms(2) that by simp
  have h8: "prefix (agentMessages t) (agentMessages u)"
    if "0 \<le> i" "i \<le> j" "j \<le> k" "getTask i = Inr t" "getTask j = Inr u" for i j t u
  proof -
    from assms(5) that have "prefix (task_history t) (task_history u)" by blast
    then show ?thesis unfolding agentMessages_def by (rule prefix_filter_mono)
  qed
  have h7: "prefix ?A (agentMessages t)" if "0 \<le> j" "j \<le> k" "getTask j = Inr t" for j t
  proof (cases "c_tasks c taskId")
    case None
    then show ?thesis by simp
  next
    case (Some stored)
    from that(2) assms(2,3) obtain u where u: "getTask 0 = Inr u"
      by (cases "k = 0") auto
    with assms(6) Some have "prefix (task_history stored) (task_history u)" by blast
    then have "prefix (agentMessages stored) (agentMessages u)"
      unfolding agentMessages_def by (rule prefix_filter_mono)
    moreover have "prefix (agentMessages u) (agentMessages t)"
      using u that by (intro h8 [of 0 j u t]) simp_all
    ultimately show ?thesis using Some by (simp add: prefix_order.trans)
  qed
  have main: "chat (poll getTask taskId 0 (length ?A) c) =
           chat c @ List.map_filter renderAgent (drop (length ?A) (agentMessages final)) \<and>
         c_tasks (poll getTask taskId 0 (length ?A) c) = (c_tasks c)(taskId \<mapsto> final) \<and>
         requestId (poll getTask taskId 0 (length ?A) c) = requestId c + (Suc k - 0)"
    by (rule poll_chat [where getTask = getTask and attempts = 0 and k = k,
          OF _ assms(1) h3 assms(3) assms(4) refl h7 h8]) simp_all
  have same: "chat (pollTask getTask taskId c) = chat c"
    if "c_tasks c taskId = Some t" "task_history t = task_history final" for t
    using main that unfolding start by (simp add: agentMessages_def List.map_filter_def)
  from main same show ?thesis
    unfolding start n map_filter_renderAgent agentMessages_def [symmetric]
    by (simp add: agentMessages_def)
qed

theorem poll_emits_rendered_agent_messages_witness:
  "chat (pollTask progress ''task-1'' client1) =
     [(''Successfully executed create_account'', Some account),
      (''Successfully executed create_order'', Some order)] \<and>
   c_tasks (pollTask progress ''task-1'' client1) ''task-1'' =
     Some (task1 Completed [hello, reply, reply2]) \<and>
   requestId (pollTask progress ''task-1'' client1) = 5"
proof -
  have p: "progress 0 = Inr (task1 Working [hello])"
    "progress 1 = Inr (task1 Working [hello, reply])"
    "progress 2 = Inr (task1 Completed [hello, reply, reply2])"
    by (simp_all add: progress_def)
  have h1: "2 < maxAttempts"
    by (simp add: maxAttempts_def)
  have h2: "\<forall>j<2. \<exists>t. progress j = Inr t \<and> st_state (task_status t) = Working"
  proof (intro allI impI)
    fix j :: nat
    assume "j < 2"
    then have "j = 0 \<or> j = 1" by arith
    then show "\<exists>t. progress j = Inr t \<and> st_state (task_status t) = Working"
      by (auto simp: progress_def task1_def)
  qed
  have h4: "st_state (task_status (task1 Completed [hello, reply, reply2])) \<noteq> Working \<or>
      Suc 2 = maxAttempts"
    by (simp add: task1_def)
  have h5: "\<forall>i j t u. i \<le> j \<and> j \<le> 2 \<and> progress i = Inr t \<and> progress j = Inr u \<longrightarrow>
      prefix (task_history t) (task_history u)"
  proof (intro allI impI)
    fix i j :: nat and t u
    assume a: "i \<le> j \<and> j \<le> 2 \<and> progress i = Inr t \<and> progress j = Inr u"
    then consider "i = 0" "j = 0" | "i = 0" "j = 1" | "i = 0" "j = 2"
      | "i = 1" "j = 1" | "i = 1" "j = 2" | "i = 2" "j = 2"
      by arith
    then show "prefix (task_history t) (task_history u)"
      using a by cases (auto simp: progress_def task1_def)
  qed
  have h6: "\<forall>t u. c_tasks client1 ''task-1'' = Some t \<and> progress 0 = Inr u \<longrightarrow>
      prefix (task_history t) (task_history u)"
    by (auto simp: progress_def client1_def task1_def)
  have h7: "0 = (case c_tasks client1 ''task-1'' of
                None \<Rightarrow> 0
              | Some t \<Rightarrow> length (filter (\<lambda>h. msg_role h = Agent) (task_history t)))"
    by (simp add: client1_def task1_def hello_def)
  from poll_emits_rendered_agent_messages [of 2 progress "task1 Completed [hello, reply, reply2]"
      client1 "''task-1''" 0, OF h1 h2 p(3) h4 h5 h6 h7]
  show ?thesis
    by (simp add: task1_def hello_def reply_def reply2_def client1_def List.map_filter_def)
qed

section \<open>The client reconciler: when polling stops\<close>







end
